theory Spec2Isabelle
  imports Main "HOL-Library.Sublist"
begin

section \<open>Strings of the JavaScript and SQL side\<close>

text \<open>
  A string is the list of its characters. What the platform brings is taken as given:
  \<open>String.prototype.toLowerCase\<close> of the JavaScript engine, which folds by the Unicode
  tables; \<open>LOWER\<close> of the database, which folds by the locale of the database; and, for
  a \<open>PORT\<close> that is not a plain decimal number, whether \<open>app.listen\<close> refuses it
  (Node reads such a string with \<open>Number\<close>: a string that does not read as a number of
  at least 0 names a pipe, one that does is refused unless it is an integer up to 65535).
\<close>

record platform =
  toLowerCase :: "string \<Rightarrow> string"
  LOWER :: "string \<Rightarrow> string"
  refuses_port :: "string \<Rightarrow> bool"

text \<open>Decimal rendering of a number inside a template literal, \<^verbatim>\<open>`$${params.length}`\<close>.\<close>

definition digit_char :: "nat \<Rightarrow> char" where
  "digit_char d = ''0123456789'' ! (d mod 10)"

fun string_of_nat :: "nat \<Rightarrow> string" where
  "string_of_nat n =
     (if n < 10 then [digit_char n] else string_of_nat (n div 10) @ [digit_char (n mod 10)])"

declare string_of_nat.simps [simp del]

text \<open>\<open>Array.prototype.join\<close>.\<close>

fun join :: "string \<Rightarrow> string list \<Rightarrow> string" where
  "join sep [] = []"
| "join sep [x] = x"
| "join sep (x # y # ys) = x @ sep @ join sep (y # ys)"

text \<open>Truthiness of a query-string value: \<open>undefined\<close> and the empty string are falsy.\<close>

fun truthy :: "string option \<Rightarrow> bool" where
  "truthy None = False"
| "truthy (Some s) = (s \<noteq> [])"

section \<open>The products relation\<close>

text \<open>
  A row of the table created by \<open>createTableSQL\<close>. \<open>name\<close> and \<open>price\<close> are
  \<open>NOT NULL\<close>; a \<open>NUMERIC(10,2)\<close> price is held as its number of hundredths.
\<close>

record product =
  p_id :: int
  p_ext_id :: "int option"
  p_name :: string
  p_category :: "string option"
  p_price :: int
  p_image :: "string option"
  p_stock :: "int option"
  p_created_at :: nat

text \<open>
  The columns the listing selects: all but \<open>created_at\<close>. The query casts the price to
  \<open>float8\<close>; an item keeps the exact number of hundredths.
\<close>

record item =
  i_id :: int
  i_ext_id :: "int option"
  i_name :: string
  i_category :: "string option"
  i_price :: int
  i_image :: "string option"
  i_stock :: "int option"

definition project :: "product \<Rightarrow> item" where
  "project r = \<lparr> i_id = p_id r, i_ext_id = p_ext_id r, i_name = p_name r,
                 i_category = p_category r, i_price = p_price r, i_image = p_image r,
                 i_stock = p_stock r \<rparr>"

text \<open>What a rejected call or a thrown exception carries.\<close>

datatype error =
    QueryFailed
  | SyntaxError
  | UndefinedParameter
  | NotNullViolation string
  | NumericOverflow
  | IntegerOutOfRange
  | BadPort

text \<open>Statements of \<open>initDb\<close>, named so that the environment can make each one fail.\<close>

datatype stmt = CreateTable | CountRows | Connect | Begin | InsertSeed nat | Commit | Rollback

datatype event =
    ConsoleLog string
  | ConsoleError string "error option"
  | Issued stmt

text \<open>
  The state the server acts on: the committed rows of \<open>products\<close>, the next value of
  the \<open>SERIAL\<close> sequence behind \<open>id\<close>, and what the process has written and issued.
\<close>

record world =
  rows :: "product list"
  next_id :: int
  trace :: "event list"

definition emit :: "event \<Rightarrow> world \<Rightarrow> world" where
  "emit e w = w\<lparr> trace := trace w @ [e] \<rparr>"

section \<open>The database's reading of the listing query\<close>

text \<open>
  \<open>LIKE\<close> with the default escape character: \<open>%\<close> matches any run of characters,
  \<open>_\<close> any single character, and a backslash makes the next pattern character literal.
  The first argument is the pattern. A pattern that ends in a lone backslash matches
  nothing here (the database raises an error when the match reaches it); the patterns
  of the listing handler always end in \<open>%\<close>.
\<close>

definition backslash :: char where
  "backslash = CHR 0x5C"

fun like :: "string \<Rightarrow> string \<Rightarrow> bool" where
  "like [] t = (t = [])"
| "like (p # ps) [] = (p = CHR ''%'' \<and> like ps [])"
| "like (p # ps) (c # cs) =
     (if p = CHR ''%'' then like ps (c # cs) \<or> like (p # ps) cs
      else if p = CHR ''_'' then like ps cs
      else if p = backslash then (case ps of [] \<Rightarrow> False | q # qs \<Rightarrow> q = c \<and> like qs cs)
      else p = c \<and> like ps cs)"

text \<open>
  The fragment of SQL the listing handler can produce: the fixed column list, an optional
  \<open>WHERE\<close> with conditions joined by \<open>AND\<close>, and \<open>ORDER BY id\<close>.
\<close>

definition select_base :: string where
  "select_base =
     ''SELECT id, ext_id, name, category, price::numeric::float8 AS price, image, stock FROM products''"

datatype cond = CategoryEq nat | LowerNameLike nat

fun strip_prefix :: "string \<Rightarrow> string \<Rightarrow> string option" where
  "strip_prefix [] s = Some s"
| "strip_prefix (p # ps) [] = None"
| "strip_prefix (p # ps) (c # cs) = (if p = c then strip_prefix ps cs else None)"

definition strip_suffix :: "string \<Rightarrow> string \<Rightarrow> string option" where
  "strip_suffix suf s = map_option rev (strip_prefix (rev suf) (rev s))"

definition digit_val :: "char \<Rightarrow> nat option" where
  "digit_val c = map_of (zip ''0123456789'' [0 ..< 10]) c"

fun parse_digits :: "nat \<Rightarrow> string \<Rightarrow> nat option" where
  "parse_digits acc [] = Some acc"
| "parse_digits acc (c # cs) =
     (case digit_val c of None \<Rightarrow> None | Some d \<Rightarrow> parse_digits (10 * acc + d) cs)"

definition parse_param :: "string \<Rightarrow> nat option" where
  "parse_param s = (if s = [] then None else parse_digits 0 s)"

definition parse_cond :: "string \<Rightarrow> cond option" where
  "parse_cond s =
     (case strip_prefix ''category = $'' s of
        Some r \<Rightarrow> map_option CategoryEq (parse_param r)
      | None \<Rightarrow>
          (case strip_prefix ''LOWER(name) LIKE $'' s of
             Some r \<Rightarrow> map_option LowerNameLike (parse_param r)
           | None \<Rightarrow> None))"

fun split_and :: "string \<Rightarrow> string \<Rightarrow> string list" where
  "split_and acc [] = [rev acc]"
| "split_and acc (c # cs) =
     (if take 5 (c # cs) = '' AND '' then rev acc # split_and [] (drop 4 cs)
      else split_and (c # acc) cs)"

definition parse_select :: "string \<Rightarrow> cond list option" where
  "parse_select q =
     (case strip_prefix select_base q of
        None \<Rightarrow> None
      | Some rest \<Rightarrow>
          (case strip_suffix '' ORDER BY id'' rest of
             None \<Rightarrow> None
           | Some mid \<Rightarrow>
               if mid = [] then Some []
               else (case strip_prefix '' WHERE '' mid of
                       None \<Rightarrow> None
                     | Some w \<Rightarrow> those (map parse_cond (split_and [] w)))))"

fun param_index :: "cond \<Rightarrow> nat" where
  "param_index (CategoryEq n) = n"
| "param_index (LowerNameLike n) = n"

definition bound :: "string list \<Rightarrow> cond \<Rightarrow> bool" where
  "bound params c = (1 \<le> param_index c \<and> param_index c \<le> length params)"

text \<open>
  A condition on a row. \<open>category = $n\<close> is not true of a row whose category is
  \<open>NULL\<close>, so \<open>WHERE\<close> drops that row.
\<close>

fun cond_holds :: "platform \<Rightarrow> string list \<Rightarrow> product \<Rightarrow> cond \<Rightarrow> bool" where
  "cond_holds pf params r (CategoryEq n) = (p_category r = Some (params ! (n - 1)))"
| "cond_holds pf params r (LowerNameLike n) = like (params ! (n - 1)) (LOWER pf (p_name r))"

definition pg_select :: "platform \<Rightarrow> string \<Rightarrow> string list \<Rightarrow> world \<Rightarrow> error + item list" where
  "pg_select pf q params w =
     (case parse_select q of
        None \<Rightarrow> Inl SyntaxError
      | Some conds \<Rightarrow>
          if list_all (bound params) conds
          then Inr (map project
                 (sort_key p_id (filter (\<lambda>r. list_all (cond_holds pf params r) conds) (rows w))))
          else Inl UndefinedParameter)"

section \<open>GET /api/products\<close>

datatype body = Items "item list" | Created product | ErrorBody string

datatype response = Response nat body

text \<open>
  \<open>req.query.category\<close> and \<open>req.query.search\<close> are \<open>None\<close> when the parameter is
  absent from the query string and \<open>Some s\<close> when it is present with the string value
  \<open>s\<close> (possibly empty).
\<close>

definition build_query ::
  "platform \<Rightarrow> string option \<Rightarrow> string option \<Rightarrow> string \<times> string list" where
  "build_query pf qCategory qSearch =
     (let base = select_base;
          wh = [];
          params = [];
          (wh, params) =
            (case qCategory of
               Some c \<Rightarrow>
                 if truthy qCategory \<and> c \<noteq> ''all''
                 then (let params = params @ [c]
                       in (wh @ [''category = $'' @ string_of_nat (length params)], params))
                 else (wh, params)
             | None \<Rightarrow> (wh, params));
          (wh, params) =
            (case qSearch of
               Some s \<Rightarrow>
                 if truthy qSearch
                 then (let params = params @ [''%'' @ toLowerCase pf s @ ''%'']
                       in (wh @ [''LOWER(name) LIKE $'' @ string_of_nat (length params)], params))
                 else (wh, params)
             | None \<Rightarrow> (wh, params));
          base = (if wh \<noteq> [] then base @ '' WHERE '' @ join '' AND '' wh else base);
          base = base @ '' ORDER BY id''
      in (base, params))"

text \<open>
  \<open>pool.query\<close> for the listing. \<open>down\<close> says that the environment makes the call
  fail (a lost connection, a timeout, a sequence that has run out): the driver then
  rejects with an error.
\<close>

definition pool_query_select ::
  "platform \<Rightarrow> bool \<Rightarrow> string \<Rightarrow> string list \<Rightarrow> world \<Rightarrow> error + item list" where
  "pool_query_select pf down q params w =
     (if down then Inl QueryFailed else pg_select pf q params w)"

definition get_products ::
  "platform \<Rightarrow> bool \<Rightarrow> string option \<Rightarrow> string option \<Rightarrow> world \<Rightarrow> response \<times> world" where
  "get_products pf down qCategory qSearch w =
     (case build_query pf qCategory qSearch of
        (base, params) \<Rightarrow>
          (case pool_query_select pf down base params w of
             Inr rs \<Rightarrow> (Response 200 (Items rs), w)
           | Inl err \<Rightarrow>
               (Response 500 (ErrorBody ''Failed to fetch products''),
                emit (ConsoleError ''GET /api/products error'' (Some err)) w)))"


section \<open>POST /api/products\<close>

text \<open>
  The six fields of a request body, and the six values bound to \<open>$1 .. $6\<close> of an
  \<open>INSERT\<close>. \<open>None\<close> is a field that is \<open>undefined\<close> or \<open>null\<close>; the driver binds
  both as \<open>NULL\<close>. The text fields carry strings and the numeric fields carry integers;
  prices are in hundredths.
\<close>

record fields =
  f_ext_id :: "int option"
  f_name :: "string option"
  f_category :: "string option"
  f_price :: "int option"
  f_image :: "string option"
  f_stock :: "int option"

text \<open>The range of an \<open>INTEGER\<close> column and of a \<open>NUMERIC(10,2)\<close> column.\<close>

definition in_int4 :: "int option \<Rightarrow> bool" where
  "in_int4 v = (case v of None \<Rightarrow> True | Some n \<Rightarrow> - 2147483648 \<le> n \<and> n \<le> 2147483647)"

definition in_numeric_10_2 :: "int \<Rightarrow> bool" where
  "in_numeric_10_2 p = (\<bar>p\<bar> < 10000000000)"

text \<open>
  \<open>INSERT INTO products (ext_id, name, category, price, image, stock) VALUES ($1, .., $6)\<close>
  builds one row. Integer parameters out of range are refused when they are bound, and a
  price that does not fit \<open>NUMERIC(10,2)\<close> when the statement is planned with the bound
  values: in both cases no value of the sequence behind \<open>id\<close> is used. After that the
  sequence has advanced, whether or not the built row passes the \<open>NOT NULL\<close> checks.
  \<open>created_at\<close> is the time \<open>now\<close> of the transaction. The row is returned; the caller
  decides where it goes (the table, or the pending rows of a transaction). The sequence of
  a \<open>SERIAL\<close> column ends at \<open>2^31 - 1\<close>; a statement that finds it used up fails, which
  is one of the failures \<open>down\<close> stands for.
\<close>

definition pg_insert_row :: "bool \<Rightarrow> nat \<Rightarrow> fields \<Rightarrow> world \<Rightarrow> (error + product) \<times> world" where
  "pg_insert_row down now v w =
     (if down then (Inl QueryFailed, w)
      else if in_int4 (f_ext_id v) \<and> in_int4 (f_stock v)
      then (if (case f_price v of None \<Rightarrow> True | Some p \<Rightarrow> in_numeric_10_2 p)
            then (let w1 = w\<lparr> next_id := next_id w + 1 \<rparr>
                  in case f_name v of
                       None \<Rightarrow> (Inl (NotNullViolation ''name''), w1)
                     | Some n \<Rightarrow>
                         (case f_price v of
                            None \<Rightarrow> (Inl (NotNullViolation ''price''), w1)
                          | Some p \<Rightarrow>
                              (Inr \<lparr> p_id = next_id w, p_ext_id = f_ext_id v, p_name = n,
                                     p_category = f_category v, p_price = p,
                                     p_image = f_image v, p_stock = f_stock v,
                                     p_created_at = now \<rparr>, w1)))
            else (Inl NumericOverflow, w))
      else (Inl IntegerOutOfRange, w))"

text \<open>\<open>ext_id || null\<close> and \<open>stock || 0\<close>: a missing value and the number 0 are falsy.\<close>

definition or_null :: "int option \<Rightarrow> int option" where
  "or_null v = (case v of None \<Rightarrow> None | Some n \<Rightarrow> if n = 0 then None else Some n)"

definition or_zero :: "int option \<Rightarrow> int option" where
  "or_zero v = (case v of None \<Rightarrow> Some 0 | Some n \<Rightarrow> if n = 0 then Some 0 else Some n)"

text \<open>The statement runs on the pool, outside any transaction: a built row is committed.\<close>

definition post_products :: "bool \<Rightarrow> nat \<Rightarrow> fields \<Rightarrow> world \<Rightarrow> response \<times> world" where
  "post_products down now body w =
     (case pg_insert_row down now
             \<lparr> f_ext_id = or_null (f_ext_id body), f_name = f_name body,
               f_category = f_category body, f_price = f_price body,
               f_image = f_image body, f_stock = or_zero (f_stock body) \<rparr> w of
        (Inr row, w') \<Rightarrow> (Response 201 (Created row), w'\<lparr> rows := rows w' @ [row] \<rparr>)
      | (Inl err, w') \<Rightarrow>
          (Response 500 (ErrorBody ''Failed to create product''),
           emit (ConsoleError ''POST /api/products error'' (Some err)) w'))"

section \<open>initDb\<close>

definition seed :: "int \<Rightarrow> string \<Rightarrow> string \<Rightarrow> int \<Rightarrow> string \<Rightarrow> int \<Rightarrow> fields" where
  "seed e n c p i s =
     \<lparr> f_ext_id = Some e, f_name = Some n, f_category = Some c, f_price = Some p,
       f_image = Some i, f_stock = Some s \<rparr>"

definition products :: "fields list" where
  "products =
     [seed 1 ''Classic White T-Shirt'' ''tshirts'' 1999
        ''https://images.unsplash.com/photo-1521572163474-6864f9cf17ab?w=400'' 50,
      seed 2 ''Cotton Polo Shirt'' ''shirts'' 2999
        ''https://images.unsplash.com/photo-1596755094514-f87e34085b2c?w=400'' 30,
      seed 3 ''Slim Fit Blue Jeans'' ''jeans'' 4999
        ''https://images.unsplash.com/photo-1542272454315-7f6d6f9a0cbe?w=400'' 25,
      seed 4 ''Casual Chino Pants'' ''pants'' 3999
        ''https://images.unsplash.com/photo-1473966968600-fa801b869a1a?w=400'' 40,
      seed 5 ''Graphic Print T-Shirt'' ''tshirts'' 2499
        ''https://images.unsplash.com/photo-1503341504253-dff4815485f1?w=400'' 60,
      seed 6 ''Formal Dress Shirt'' ''shirts'' 4499
        ''https://images.unsplash.com/photo-1602810318383-e386cc2a3ccf?w=400'' 20,
      seed 7 ''Black Skinny Jeans'' ''jeans'' 5499
        ''https://images.unsplash.com/photo-1541099649105-f69ad21f3246?w=400'' 8,
      seed 8 ''Cargo Pants'' ''pants'' 4299
        ''https://images.unsplash.com/photo-1624378439575-d8705ad7ae80?w=400'' 28,
      seed 9 ''V-Neck T-Shirt'' ''tshirts'' 2299
        ''https://images.unsplash.com/photo-1581655353564-df123a1eb820?w=400'' 45,
      seed 10 ''Denim Jacket'' ''shirts'' 6999
        ''https://images.unsplash.com/photo-1576995853123-5a10305d93c0?w=400'' 15,
      seed 11 ''Ripped Jeans'' ''jeans'' 5999
        ''https://images.unsplash.com/photo-1584370848010-d7fe6bc767ec?w=400'' 22,
      seed 12 ''Jogger Pants'' ''pants'' 3699
        ''https://images.unsplash.com/photo-1551028719-00167b16eac5?w=400'' 35]"

text \<open>
  The \<open>for\<close> loop of the transaction. \<open>fails\<close> tells which statements the environment
  makes fail; the first failing insert throws and ends the loop. Rows inserted inside the
  transaction are pending until \<open>COMMIT\<close>.
\<close>

fun insert_each ::
  "(stmt \<Rightarrow> bool) \<Rightarrow> nat \<Rightarrow> nat \<Rightarrow> fields list \<Rightarrow> product list \<Rightarrow> world
     \<Rightarrow> (error + product list) \<times> world" where
  "insert_each fails now i [] pending w = (Inr pending, w)"
| "insert_each fails now i (p # ps) pending w =
     (case pg_insert_row (fails (InsertSeed i)) now p (emit (Issued (InsertSeed i)) w) of
        (Inl err, w') \<Rightarrow> (Inl err, w')
      | (Inr row, w') \<Rightarrow> insert_each fails now (Suc i) ps (pending @ [row]) w')"

text \<open>
  The \<open>try\<close> block: \<open>BEGIN\<close>, the inserts, \<open>COMMIT\<close>. Only a \<open>COMMIT\<close> that
  succeeds moves the pending rows into the table; one that fails commits nothing.
\<close>

definition seed_try :: "(stmt \<Rightarrow> bool) \<Rightarrow> nat \<Rightarrow> world \<Rightarrow> (error + unit) \<times> world" where
  "seed_try fails now w0 =
     (let w = emit (Issued Begin) w0
      in if fails Begin then (Inl QueryFailed, w)
         else (case insert_each fails now 0 products [] w of
                 (Inl err, w') \<Rightarrow> (Inl err, w')
               | (Inr pending, w') \<Rightarrow>
                   (let w'' = emit (Issued Commit) w'
                    in if fails Commit then (Inl QueryFailed, w'')
                       else (Inr (), emit (ConsoleLog ''Seed complete.'')
                                       (w''\<lparr> rows := rows w'' @ pending \<rparr>)))))"

text \<open>
  \<open>initDb\<close> resolves (\<open>Inr\<close>) or rejects (\<open>Inl\<close>). \<open>COUNT( * )::int\<close> is out of
  range from \<open>2^31\<close> rows on. \<open>pool.connect()\<close> stands before the \<open>try\<close>, so its
  failure leaves \<open>initDb\<close>. The \<open>catch\<close> block awaits \<open>ROLLBACK\<close> before it logs: when
  that call fails too, its error leaves \<open>initDb\<close>. The pending rows of a transaction that
  was not committed never reach the table. \<open>client.release()\<close> changes nothing here.
\<close>

definition initDb :: "(stmt \<Rightarrow> bool) \<Rightarrow> nat \<Rightarrow> world \<Rightarrow> (error + unit) \<times> world" where
  "initDb fails now w0 =
     (let w = emit (Issued CreateTable) w0
      in if fails CreateTable then (Inl QueryFailed, w)
         else (let w = emit (Issued CountRows) w
               in if fails CountRows then (Inl QueryFailed, w)
                  else if length (rows w) < 2147483648
                  then (let count = length (rows w)
                        in if count = 0
                           then (let w = emit (ConsoleLog ''Seeding products table...'') w;
                                     w = emit (Issued Connect) w
                                 in if fails Connect then (Inl QueryFailed, w)
                                    else (case seed_try fails now w of
                                            (Inr u, w') \<Rightarrow> (Inr (), w')
                                          | (Inl err, w') \<Rightarrow>
                                              (let w'' = emit (Issued Rollback) w'
                                               in if fails Rollback then (Inl QueryFailed, w'')
                                                  else (Inr (),
                                                        emit (ConsoleError ''Error seeding products:''
                                                                (Some err)) w''))))
                           else (Inr (),
                                 emit (ConsoleLog (''Products table already has ''
                                         @ string_of_nat count @ '' rows, skip seeding.'')) w))
                  else (Inl IntegerOutOfRange, w)))"

section \<open>Bootstrap\<close>

record env =
  DATABASE_URL :: "string option"
  PORT :: "string option"

datatype port = PortString string | PortNumber nat

datatype outcome = Exited nat | Listening port

fun port_text :: "port \<Rightarrow> string" where
  "port_text (PortString s) = s"
| "port_text (PortNumber n) = string_of_nat n"

text \<open>
  \<open>app.listen(port)\<close> throws at once for a port that Node refuses: a number above
  65535, a decimal string above 65535, and any other string the platform refuses.
\<close>

definition listen_throws :: "platform \<Rightarrow> port \<Rightarrow> bool" where
  "listen_throws pf port =
     (case port of
        PortNumber n \<Rightarrow> 65535 < n
      | PortString s \<Rightarrow>
          (case parse_param s of Some n \<Rightarrow> 65535 < n | None \<Rightarrow> refuses_port pf s))"

text \<open>
  The module body of \<open>server.js\<close> from the check of the connection string to
  \<open>app.listen\<close>: the process either exits with a code or has called \<open>app.listen\<close>
  with a port that Node accepts. An exception of \<open>app.listen\<close> inside \<open>.then\<close> reaches
  the \<open>.catch\<close> like a rejection of \<open>initDb\<close>.
\<close>

definition bootstrap ::
  "platform \<Rightarrow> env \<Rightarrow> (stmt \<Rightarrow> bool) \<Rightarrow> nat \<Rightarrow> world \<Rightarrow> outcome \<times> world" where
  "bootstrap pf e fails now w =
     (if truthy (DATABASE_URL e)
      then (let port = (if truthy (PORT e)
                        then (case PORT e of Some p \<Rightarrow> PortString p | None \<Rightarrow> PortNumber 3000)
                        else PortNumber 3000)
            in case initDb fails now w of
                 (Inr u, w') \<Rightarrow>
                   if listen_throws pf port
                   then (Exited 1, emit (ConsoleError ''DB init failed:'' (Some BadPort)) w')
                   else (Listening port,
                         emit (ConsoleLog (''Server started at http://localhost:''
                                 @ port_text port)) w')
               | (Inl err, w') \<Rightarrow>
                   (Exited 1, emit (ConsoleError ''DB init failed:'' (Some err)) w'))
      else (Exited 1, emit (ConsoleError ''DATABASE_URL missing in .env'' None) w))"

section \<open>Vocabulary of the properties\<close>

text \<open>The items a response carries; an error response carries none.\<close>

fun items_of :: "response \<Rightarrow> item list" where
  "items_of (Response st (Items rs)) = rs"
| "items_of (Response st b) = []"

text \<open>When the handler adds the category condition, and what each condition asks of a row.\<close>

definition active :: "string option \<Rightarrow> bool" where
  "active qc = (truthy qc \<and> qc \<noteq> Some ''all'')"

definition category_matches :: "string option \<Rightarrow> string option \<Rightarrow> bool" where
  "category_matches qc cat = (if active qc then cat = qc else True)"

definition search_matches :: "platform \<Rightarrow> string option \<Rightarrow> string \<Rightarrow> bool" where
  "search_matches pf qs name =
     (case qs of
        Some s \<Rightarrow>
          if s \<noteq> [] then like (''%'' @ toLowerCase pf s @ ''%'') (LOWER pf name)
          else True
      | None \<Rightarrow> True)"

text \<open>A search term without a character that \<open>LIKE\<close> reads specially.\<close>

definition no_wildcards :: "string \<Rightarrow> bool" where
  "no_wildcards s = list_all (\<lambda>c. c \<noteq> CHR ''%'' \<and> c \<noteq> CHR ''_'' \<and> c \<noteq> backslash) s"

text \<open>The six inserted columns of a stored row, and the values an insert accepts.\<close>

definition content :: "product \<Rightarrow> fields" where
  "content r =
     \<lparr> f_ext_id = p_ext_id r, f_name = Some (p_name r), f_category = p_category r,
       f_price = Some (p_price r), f_image = p_image r, f_stock = p_stock r \<rparr>"

definition valid :: "fields \<Rightarrow> bool" where
  "valid v =
     (in_int4 (f_ext_id v) \<and> in_int4 (f_stock v) \<and> f_name v \<noteq> None
      \<and> (case f_price v of None \<Rightarrow> False | Some p \<Rightarrow> in_numeric_10_2 p))"

text \<open>
  Sample states and requests. The sample platform folds the ASCII letters, as both
  foldings do on ASCII strings, and refuses no port.
\<close>

definition upper_letters :: string where
  "upper_letters = ''ABCDEFGHIJKLMNOPQRSTUVWXYZ''"

definition lower_letters :: string where
  "lower_letters = ''abcdefghijklmnopqrstuvwxyz''"

definition to_lower_char :: "char \<Rightarrow> char" where
  "to_lower_char c =
     (case map_of (zip upper_letters lower_letters) c of Some l \<Rightarrow> l | None \<Rightarrow> c)"

definition ascii :: platform where
  "ascii = \<lparr> toLowerCase = map to_lower_char, LOWER = map to_lower_char,
             refuses_port = (\<lambda>s. False) \<rparr>"

definition rack :: world where
  "rack =
     \<lparr> rows =
         [\<lparr> p_id = 3, p_ext_id = None, p_name = ''White Chino Pants'', p_category = Some ''pants'',
            p_price = 3999, p_image = None, p_stock = Some 4, p_created_at = 7 \<rparr>,
          \<lparr> p_id = 1, p_ext_id = Some 5, p_name = ''Graphic Print T-Shirt'',
            p_category = Some ''tshirts'', p_price = 2499, p_image = None, p_stock = Some 60,
            p_created_at = 7 \<rparr>,
          \<lparr> p_id = 2, p_ext_id = Some 1, p_name = ''Classic White T-Shirt'',
            p_category = Some ''tshirts'', p_price = 1999, p_image = None, p_stock = Some 50,
            p_created_at = 7 \<rparr>],
       next_id = 4, trace = [] \<rparr>"

definition white_tshirt :: item where
  "white_tshirt = \<lparr> i_id = 2, i_ext_id = Some 1, i_name = ''Classic White T-Shirt'',
                    i_category = Some ''tshirts'', i_price = 1999, i_image = None,
                    i_stock = Some 50 \<rparr>"


definition white_pants :: item where
  "white_pants = \<lparr> i_id = 3, i_ext_id = None, i_name = ''White Chino Pants'',
                   i_category = Some ''pants'', i_price = 3999, i_image = None,
                   i_stock = Some 4 \<rparr>"

definition fresh :: world where
  "fresh = \<lparr> rows = [], next_id = 1, trace = [] \<rparr>"

definition shelf :: world where
  "shelf =
     \<lparr> rows =
         [\<lparr> p_id = 2, p_ext_id = Some 8, p_name = ''Cargo Pants'', p_category = Some ''pants'',
            p_price = 4299, p_image = None, p_stock = Some 28, p_created_at = 7 \<rparr>,
          \<lparr> p_id = 1, p_ext_id = Some 1, p_name = ''Classic White T-Shirt'',
            p_category = Some ''tshirts'', p_price = 1999, p_image = None, p_stock = Some 50,
            p_created_at = 7 \<rparr>],
       next_id = 3, trace = [] \<rparr>"

definition cargo :: item where
  "cargo = \<lparr> i_id = 2, i_ext_id = Some 8, i_name = ''Cargo Pants'', i_category = Some ''pants'',
             i_price = 4299, i_image = None, i_stock = Some 28 \<rparr>"

definition tshirt :: item where
  "tshirt = \<lparr> i_id = 1, i_ext_id = Some 1, i_name = ''Classic White T-Shirt'',
              i_category = Some ''tshirts'', i_price = 1999, i_image = None, i_stock = Some 50 \<rparr>"

definition hat :: fields where
  "hat = \<lparr> f_ext_id = None, f_name = Some ''Hat'', f_category = Some ''hats'',
           f_price = Some 500, f_image = None, f_stock = None \<rparr>"

definition configured :: env where
  "configured = \<lparr> DATABASE_URL = Some ''postgres://db/shop'', PORT = None \<rparr>"

definition no_fault :: "stmt \<Rightarrow> bool" where
  "no_fault s = False"

definition fault_at :: "stmt list \<Rightarrow> stmt \<Rightarrow> bool" where
  "fault_at ss s = (s \<in> set ss)"

section \<open>Facts about the listing query\<close>

lemma son1: "string_of_nat (Suc 0) = ''1''"
  by code_simp

lemma son2: "string_of_nat (Suc (Suc 0)) = ''2''"
  by code_simp

lemma dv1: "digit_val CHR ''1'' = Some 1"
  by code_simp

lemma dv2: "digit_val CHR ''2'' = Some 2"
  by code_simp

lemmas num_simps = son1 son2

lemma bq_none: "\<not> active qc \<Longrightarrow> \<not> truthy qs \<Longrightarrow>
  build_query pf qc qs = (select_base @ '' ORDER BY id'', [])"
  by (cases qc; cases qs) (auto simp: build_query_def active_def)

lemma bq_cat: "active qc \<Longrightarrow> \<not> truthy qs \<Longrightarrow>
  build_query pf qc qs = (select_base @ '' WHERE category = $1 ORDER BY id'', [the qc])"
  by (cases qc; cases qs) (auto simp: build_query_def active_def num_simps)

lemma bq_search: "\<not> active qc \<Longrightarrow> truthy qs \<Longrightarrow>
  build_query pf qc qs = (select_base @ '' WHERE LOWER(name) LIKE $1 ORDER BY id'',
     [''%'' @ toLowerCase pf (the qs) @ ''%''])"
  by (cases qc; cases qs) (auto simp: build_query_def active_def num_simps)

lemma bq_both: "active qc \<Longrightarrow> truthy qs \<Longrightarrow>
  build_query pf qc qs = (select_base @ '' WHERE category = $1 AND LOWER(name) LIKE $2 ORDER BY id'',
     [the qc, ''%'' @ toLowerCase pf (the qs) @ ''%''])"
  by (cases qc; cases qs) (auto simp: build_query_def active_def num_simps)

lemmas parse_defs = parse_select_def strip_suffix_def parse_cond_def parse_param_def dv1 dv2 select_base_def

lemma ps_none: "parse_select (select_base @ '' ORDER BY id'') = Some []"
  by (simp add: parse_defs)

lemma ps_cat: "parse_select (select_base @ '' WHERE category = $1 ORDER BY id'') = Some [CategoryEq 1]"
  by (simp add: parse_defs)

lemma ps_search: "parse_select (select_base @ '' WHERE LOWER(name) LIKE $1 ORDER BY id'') = Some [LowerNameLike 1]"
  by (simp add: parse_defs)

lemma ps_both: "parse_select (select_base @ '' WHERE category = $1 AND LOWER(name) LIKE $2 ORDER BY id'') = Some [CategoryEq 1, LowerNameLike 2]"
  by (simp add: parse_defs)

lemma get_products_sem:
  "get_products pf False qc qs w =
     (Response 200 (Items (map project (sort_key p_id
        (filter (\<lambda>r. category_matches qc (p_category r) \<and> search_matches pf qs (p_name r)) (rows w))))), w)"
proof (cases "active qc"; cases "truthy qs")
  assume a: "active qc" "truthy qs"
  then obtain c s where "qc = Some c" "qs = Some s" "s \<noteq> []"
    by (cases qc; cases qs) (auto simp: active_def)
  with a show ?thesis
    by (simp add: get_products_def bq_both pool_query_select_def pg_select_def ps_both bound_def
        category_matches_def search_matches_def)
next
  assume a: "active qc" "\<not> truthy qs"
  then obtain c where "qc = Some c" by (cases qc) (auto simp: active_def)
  with a show ?thesis
    by (cases qs) (auto simp add: get_products_def bq_cat pool_query_select_def pg_select_def ps_cat bound_def
        category_matches_def search_matches_def)
next
  assume a: "\<not> active qc" "truthy qs"
  then obtain s where "qs = Some s" "s \<noteq> []" by (cases qs) auto
  with a show ?thesis
    by (simp add: get_products_def bq_search pool_query_select_def pg_select_def ps_search bound_def
        category_matches_def search_matches_def)
next
  assume a: "\<not> active qc" "\<not> truthy qs"
  then show ?thesis
    by (cases qs) (auto simp add: get_products_def bq_none pool_query_select_def pg_select_def ps_none bound_def
        category_matches_def search_matches_def)
qed


lemma like_percent_only: "like ''%'' t"
  by (induction t) auto

lemma like_percent: "like (CHR ''%'' # p) t \<longleftrightarrow> (\<exists>a b. t = a @ b \<and> like p b)"
proof (induction t)
  case Nil
  then show ?case by simp
next
  case (Cons c cs)
  show ?case
  proof
    assume "like (CHR ''%'' # p) (c # cs)"
    then consider "like p (c # cs)" | "like (CHR ''%'' # p) cs" by auto
    then show "\<exists>a b. c # cs = a @ b \<and> like p b"
    proof cases
      case 1
      then have "c # cs = [] @ (c # cs) \<and> like p (c # cs)" by simp
      then show ?thesis by blast
    next
      case 2
      with Cons.IH obtain a b where "cs = a @ b" "like p b" by blast
      then have "c # cs = (c # a) @ b \<and> like p b" by simp
      then show ?thesis by blast
    qed
  next
    assume "\<exists>a b. c # cs = a @ b \<and> like p b"
    then obtain a b where ab: "c # cs = a @ b" "like p b" by blast
    show "like (CHR ''%'' # p) (c # cs)"
    proof (cases a)
      case Nil
      with ab have "like p (c # cs)" by simp
      then show ?thesis by simp
    next
      case (Cons x xs)
      with ab have "cs = xs @ b" by simp
      with ab(2) Cons.IH have "like (CHR ''%'' # p) cs" by blast
      then show ?thesis by simp
    qed
  qed
qed

lemma like_literal:
  "no_wildcards s \<Longrightarrow> like (s @ p) t \<longleftrightarrow> (\<exists>t'. t = s @ t' \<and> like p t')"
proof (induction s arbitrary: t)
  case Nil
  then show ?case by simp
next
  case (Cons x xs)
  then have x: "x \<noteq> CHR ''%''" "x \<noteq> CHR ''_''" "x \<noteq> backslash" and xs: "no_wildcards xs"
    by (simp_all add: no_wildcards_def)
  show ?case
  proof (cases t)
    case Nil
    with x show ?thesis by simp
  next
    case (Cons c cs)
    with x Cons.IH[OF xs, of cs] show ?thesis by auto
  qed
qed

lemma like_contains:
  assumes "no_wildcards s"
  shows "like (''%'' @ s @ ''%'') t \<longleftrightarrow> sublist s t"
proof -
  have "like (''%'' @ s @ ''%'') t \<longleftrightarrow> (\<exists>a b. t = a @ b \<and> like (s @ ''%'') b)"
    using like_percent[of "s @ ''%''" t] by simp
  also have "\<dots> \<longleftrightarrow> (\<exists>a b. t = a @ b \<and> (\<exists>t'. b = s @ t'))"
    using like_literal[OF assms, of "''%''"] like_percent_only by simp
  also have "\<dots> \<longleftrightarrow> sublist s t"
    by (auto simp: sublist_def)
  finally show ?thesis .
qed

lemma items_of_get:
  "items_of (fst (get_products pf False qc qs w)) =
     map project (sort_key p_id
       (filter (\<lambda>r. category_matches qc (p_category r) \<and> search_matches pf qs (p_name r)) (rows w)))"
  by (simp add: get_products_sem)

lemma project_filter:
  "filter Q (map project (sort_key p_id (filter P xs))) =
   map project (sort_key p_id (filter (\<lambda>r. P r \<and> Q (project r)) xs))"
  by (simp add: filter_map filter_sort comp_def conj_commute)

lemma build_query_empty_category: "build_query pf (Some []) qs = build_query pf None qs"
  by (simp add: build_query_def)

lemma build_query_empty_search: "build_query pf qc (Some []) = build_query pf qc None"
  by (simp add: build_query_def)

lemma build_query_all: "build_query pf (Some ''all'') qs = build_query pf None qs"
  by (simp add: build_query_def)

lemmas ascii_defs = ascii_def to_lower_char_def upper_letters_def lower_letters_def backslash_def

lemma shelf_all:
  "fst (get_products ascii False None None shelf) = Response 200 (Items [tshirt, cargo])"
  by (simp add: get_products_sem category_matches_def search_matches_def active_def shelf_def
      project_def tshirt_def cargo_def)

lemma rows_listing:
  "fst (get_products pf False qc qs w) =
     Response 200 (Items (map project (sort_key p_id (filter
       (\<lambda>r. (case qc of
                  Some c \<Rightarrow> if c \<noteq> [] \<and> c \<noteq> ''all'' then p_category r = Some c else True
                | None \<Rightarrow> True)
            \<and> (case qs of
                  Some s \<Rightarrow>
                    if s \<noteq> [] then like (''%'' @ toLowerCase pf s @ ''%'') (LOWER pf (p_name r))
                    else True
                | None \<Rightarrow> True))
       (rows w)))))"
proof -
  have "category_matches qc cat =
          (case qc of
             Some c \<Rightarrow> if c \<noteq> [] \<and> c \<noteq> ''all'' then cat = Some c else True
           | None \<Rightarrow> True)" for cat
    by (cases qc) (auto simp: category_matches_def active_def)
  then show ?thesis
    by (simp add: get_products_sem search_matches_def)
qed

text \<open>
  C3, amended. A category that is present, not empty and not \<open>all\<close> restricts the listing
  to the rows whose category is exactly that value, whatever the search filter is. An empty
  category and the category \<open>all\<close> give what an absent category gives, and with no
  filter at all every row is listed.
\<close>
theorem category_filter:
  "(c \<noteq> [] \<and> c \<noteq> ''all'' \<longrightarrow>
      fst (get_products pf False (Some c) qs w) =
        Response 200 (Items (filter (\<lambda>i. i_category i = Some c)
                               (items_of (fst (get_products pf False None qs w)))))
      \<and> fst (get_products pf False (Some c) None w) =
          Response 200 (Items (map project (sort_key p_id
                                 (filter (\<lambda>r. p_category r = Some c) (rows w))))))
   \<and> get_products pf down (Some []) qs w = get_products pf down None qs w
   \<and> get_products pf down (Some ''all'') qs w = get_products pf down None qs w
   \<and> fst (get_products pf False None None w)
       = Response 200 (Items (map project (sort_key p_id (rows w))))"
proof (intro conjI impI)
  assume c: "c \<noteq> [] \<and> c \<noteq> ''all''"
  then have "active (Some c)" "\<not> active None" by (simp_all add: active_def)
  then show "fst (get_products pf False (Some c) qs w) =
        Response 200 (Items (filter (\<lambda>i. i_category i = Some c)
                               (items_of (fst (get_products pf False None qs w)))))"
    by (simp add: items_of_get project_filter get_products_sem category_matches_def project_def
        conj_commute)
  from c show "fst (get_products pf False (Some c) None w) =
          Response 200 (Items (map project (sort_key p_id
                                 (filter (\<lambda>r. p_category r = Some c) (rows w)))))"
    by (simp add: rows_listing)
next
  show "get_products pf down (Some []) qs w = get_products pf down None qs w"
    by (simp add: get_products_def build_query_empty_category)
next
  show "get_products pf down (Some ''all'') qs w = get_products pf down None qs w"
    by (simp add: get_products_def build_query_all)
next
  show "fst (get_products pf False None None w)
       = Response 200 (Items (map project (sort_key p_id (rows w))))"
    by (simp add: rows_listing)
qed

text \<open>C3, at the categories \<open>pants\<close>, empty and \<open>all\<close> on a table of two rows.\<close>
theorem category_filter_witness:
  "''pants'' \<noteq> [] \<and> ''pants'' \<noteq> ''all''
   \<and> fst (get_products ascii False (Some ''pants'') None shelf) = Response 200 (Items [cargo])
   \<and> fst (get_products ascii False (Some []) None shelf) = Response 200 (Items [tshirt, cargo])
   \<and> fst (get_products ascii False (Some ''all'') None shelf)
       = Response 200 (Items [tshirt, cargo])"
  using category_filter [of "''pants''" ascii None shelf False]
  by (simp add: shelf_all) (simp add: cargo_def tshirt_def)

text \<open>
  C3 as it is stated fails for \<open>?category=\<close>: the category is present and is not \<open>all\<close>,
  yet both rows are listed and neither has the empty category.
\<close>
theorem category_filter_counterexample:
  "fst (get_products ascii False (Some []) None shelf) = Response 200 (Items [tshirt, cargo])
   \<and> i_category tshirt \<noteq> Some [] \<and> i_category cargo \<noteq> Some []"
  by (simp add: get_products_def build_query_empty_category)
     (simp add: shelf_all[simplified get_products_def] tshirt_def cargo_def)

text \<open>
  C10. A category or a search term that is present but empty gives the response, the log
  and the state that the absent parameter gives.
\<close>
theorem empty_filter_is_absent:
  "get_products pf down (Some []) qs w = get_products pf down None qs w
   \<and> get_products pf down qc (Some []) w = get_products pf down qc None w"
  by (simp add: get_products_def build_query_empty_category build_query_empty_search)

text \<open>C10, at a request with both parameters empty.\<close>
theorem empty_filter_is_absent_witness:
  "get_products ascii False (Some []) (Some []) shelf
     = (Response 200 (Items [tshirt, cargo]), shelf)"
proof -
  have "get_products ascii False None None shelf = (Response 200 (Items [tshirt, cargo]), shelf)"
    using shelf_all by (simp add: get_products_sem)
  with empty_filter_is_absent [of ascii False "Some []" shelf "Some []"]
    empty_filter_is_absent [of ascii False None shelf None]
  show ?thesis by simp
qed

text \<open>
  C4, amended. For a search term that is not empty and whose folded form holds no \<open>%\<close>,
  \<open>_\<close> and backslash, the listing keeps exactly the rows whose name, folded by the
  database, contains the term, folded by \<open>toLowerCase\<close>, as a substring. An empty term
  restricts nothing.
\<close>
theorem search_filter:
  "(s \<noteq> [] \<and> no_wildcards (toLowerCase pf s) \<longrightarrow>
      fst (get_products pf False qc (Some s) w) =
        Response 200 (Items (filter (\<lambda>i. sublist (toLowerCase pf s) (LOWER pf (i_name i)))
                               (items_of (fst (get_products pf False qc None w)))))
      \<and> fst (get_products pf False None (Some s) w) =
          Response 200 (Items (map project (sort_key p_id
            (filter (\<lambda>r. sublist (toLowerCase pf s) (LOWER pf (p_name r))) (rows w))))))
   \<and> get_products pf down qc (Some []) w = get_products pf down qc None w"
proof (intro conjI impI)
  assume a: "s \<noteq> [] \<and> no_wildcards (toLowerCase pf s)"
  then have m: "search_matches pf (Some s) n = sublist (toLowerCase pf s) (LOWER pf n)" for n
    using like_contains[of "toLowerCase pf s" "LOWER pf n"] by (simp add: search_matches_def)
  then show "fst (get_products pf False qc (Some s) w) =
        Response 200 (Items (filter (\<lambda>i. sublist (toLowerCase pf s) (LOWER pf (i_name i)))
                               (items_of (fst (get_products pf False qc None w)))))"
    by (simp add: items_of_get project_filter get_products_sem search_matches_def project_def)
  from a like_contains[of "toLowerCase pf s"]
  show "fst (get_products pf False None (Some s) w) =
          Response 200 (Items (map project (sort_key p_id
            (filter (\<lambda>r. sublist (toLowerCase pf s) (LOWER pf (p_name r))) (rows w)))))"
    by (simp add: rows_listing)
next
  show "get_products pf down qc (Some []) w = get_products pf down qc None w"
    by (simp add: get_products_def build_query_empty_search)
qed

text \<open>
  C4, at the term \<open>WHITE\<close> on a table of three rows: the two white articles are listed,
  the print T-shirt is not.
\<close>
theorem search_filter_witness:
  "''WHITE'' \<noteq> [] \<and> no_wildcards (toLowerCase ascii ''WHITE'')
   \<and> fst (get_products ascii False None (Some ''WHITE'') rack)
       = Response 200 (Items [white_tshirt, white_pants])"
proof -
  have h: "''WHITE'' \<noteq> [] \<and> no_wildcards (toLowerCase ascii ''WHITE'')"
    by (simp add: no_wildcards_def ascii_defs)
  have e: "map project (sort_key p_id
             (filter (\<lambda>r. sublist (toLowerCase ascii ''WHITE'') (LOWER ascii (p_name r)))
                (rows rack)))
           = [white_tshirt, white_pants]"
    by (simp add: rack_def ascii_defs project_def white_tshirt_def white_pants_def
        sublist_code prefix_code)
  from search_filter [of "''WHITE''" ascii None rack False, THEN conjunct1, THEN mp, OF h,
      THEN conjunct2]
  have "fst (get_products ascii False None (Some ''WHITE'') rack)
          = Response 200 (Items [white_tshirt, white_pants])"
    by (simp only: e)
  with h show ?thesis by simp
qed

text \<open>
  C4 as it is stated fails for the term \<open>_\<close>: the cargo pants are listed although their
  name holds no underscore.
\<close>
theorem search_filter_counterexample:
  "fst (get_products ascii False None (Some ''_'') shelf) = Response 200 (Items [tshirt, cargo])
   \<and> \<not> sublist (toLowerCase ascii ''_'') (LOWER ascii (i_name cargo))"
  by (simp add: rows_listing shelf_def project_def tshirt_def cargo_def ascii_defs
      sublist_code prefix_code)





text \<open>
  C8, amended. Two requests that agree on which filters are non-empty and on whether the
  category is \<open>all\<close> produce the same query text; the values of present filters are the
  bound parameters.
\<close>
theorem query_text_by_shape:
  assumes "truthy c1 = truthy c2" and "(c1 = Some ''all'') = (c2 = Some ''all'')"
    and "truthy s1 = truthy s2"
  shows "fst (build_query pf c1 s1) = fst (build_query pf c2 s2)
         \<and> fst (build_query pf c1 s1) \<in>
              {select_base @ '' ORDER BY id'',
               select_base @ '' WHERE category = $1 ORDER BY id'',
               select_base @ '' WHERE LOWER(name) LIKE $1 ORDER BY id'',
               select_base @ '' WHERE category = $1 AND LOWER(name) LIKE $2 ORDER BY id''}
         \<and> snd (build_query pf (Some c) (Some s))
             = (if c \<noteq> [] \<and> c \<noteq> ''all'' then [c] else [])
               @ (if s \<noteq> [] then [''%'' @ toLowerCase pf s @ ''%''] else [])"
proof (intro conjI)
  from assms have "active c1 = active c2" by (simp add: active_def)
  with assms(3) show "fst (build_query pf c1 s1) = fst (build_query pf c2 s2)"
    by (cases "active c1"; cases "truthy s1") (simp_all add: bq_none bq_cat bq_search bq_both)
next
  show "fst (build_query pf c1 s1) \<in>
              {select_base @ '' ORDER BY id'',
               select_base @ '' WHERE category = $1 ORDER BY id'',
               select_base @ '' WHERE LOWER(name) LIKE $1 ORDER BY id'',
               select_base @ '' WHERE category = $1 AND LOWER(name) LIKE $2 ORDER BY id''}"
    by (cases "active c1"; cases "truthy s1") (simp_all add: bq_none bq_cat bq_search bq_both)
next
  show "snd (build_query pf (Some c) (Some s))
             = (if c \<noteq> [] \<and> c \<noteq> ''all'' then [c] else [])
               @ (if s \<noteq> [] then [''%'' @ toLowerCase pf s @ ''%''] else [])"
    by (cases "active (Some c)"; cases "truthy (Some s)")
       (simp_all add: bq_none bq_cat bq_search bq_both, simp_all add: active_def)
qed

text \<open>C8, at a harmless category and at one that carries SQL.\<close>
theorem query_text_by_shape_witness:
  "truthy (Some ''jeans'') = truthy (Some ''x' OR 1=1 --'')
   \<and> (Some ''jeans'' = Some ''all'') = (Some ''x' OR 1=1 --'' = Some ''all'')
   \<and> truthy (None :: string option) = truthy None
   \<and> fst (build_query ascii (Some ''jeans'') None)
       = fst (build_query ascii (Some ''x' OR 1=1 --'') None)
   \<and> snd (build_query ascii (Some ''x' OR 1=1 --'') (Some [])) = [''x' OR 1=1 --'']"
  using query_text_by_shape [of "Some ''jeans''" "Some ''x' OR 1=1 --''" None None ascii
      "''x' OR 1=1 --''" "[]"]
  by simp

text \<open>
  C8 as it is stated fails for an empty against a non-empty category: both are present,
  neither is \<open>all\<close>, and the texts differ.
\<close>
theorem query_text_by_shape_counterexample:
  "(Some [] \<noteq> (None :: string option)) \<and> (Some ''jeans'' \<noteq> (None :: string option))
   \<and> Some [] \<noteq> Some ''all'' \<and> Some ''jeans'' \<noteq> Some ''all''
   \<and> fst (build_query ascii (Some []) None) = select_base @ '' ORDER BY id''
   \<and> fst (build_query ascii (Some ''jeans'') None)
       = select_base @ '' WHERE category = $1 ORDER BY id''
   \<and> fst (build_query ascii (Some []) None) \<noteq> fst (build_query ascii (Some ''jeans'') None)"
  by (simp add: bq_none bq_cat active_def)

section \<open>Facts about inserting\<close>

lemma pg_insert_row_rows: "rows (snd (pg_insert_row down now v w)) = rows w"
  by (simp add: pg_insert_row_def Let_def split: option.splits)

lemma pg_insert_row_Inr:
  "pg_insert_row down now v w = (Inr r, w') \<Longrightarrow>
     content r = v \<and> p_id r = next_id w \<and> p_created_at r = now \<and> \<not> down \<and> valid v
     \<and> w' = w\<lparr> next_id := next_id w + 1 \<rparr>"
  by (auto simp: pg_insert_row_def Let_def content_def valid_def split: option.splits if_splits)

lemma pg_insert_row_valid:
  "valid v \<Longrightarrow> \<not> down \<Longrightarrow> \<exists>r. pg_insert_row down now v w = (Inr r, w\<lparr> next_id := next_id w + 1 \<rparr>)"
  by (auto simp: pg_insert_row_def Let_def valid_def split: option.splits)

lemma pg_insert_row_down: "pg_insert_row True now v w = (Inl QueryFailed, w)"
  by (simp add: pg_insert_row_def)

lemma insert_each_Cons_Inr:
  "pg_insert_row (fails (InsertSeed i)) now p (emit (Issued (InsertSeed i)) w) = (Inr r, w') \<Longrightarrow>
     insert_each fails now i (p # ps) pending w = insert_each fails now (Suc i) ps (pending @ [r]) w'"
  by simp

lemma insert_each_Cons_Inl:
  "pg_insert_row (fails (InsertSeed i)) now p (emit (Issued (InsertSeed i)) w) = (Inl e, w') \<Longrightarrow>
     insert_each fails now i (p # ps) pending w = (Inl e, w')"
  by simp

lemma insert_each_rows: "rows (snd (insert_each fails now i ps pending w)) = rows w"
proof (induction ps arbitrary: i pending w)
  case Nil
  then show ?case by simp
next
  case (Cons p ps)
  show ?case
  proof (cases "pg_insert_row (fails (InsertSeed i)) now p (emit (Issued (InsertSeed i)) w)")
    case (Pair res w')
    have w': "rows w' = rows w"
      using pg_insert_row_rows[of "fails (InsertSeed i)" now p "emit (Issued (InsertSeed i)) w"] Pair
      by (simp add: emit_def)
    show ?thesis
    proof (cases res)
      case (Inl e)
      with Pair w' show ?thesis by simp
    next
      case (Inr r)
      with Pair w' Cons.IH[of "Suc i" "pending @ [r]" w'] show ?thesis by simp
    qed
  qed
qed

lemma insert_each_Inr:
  "fst (insert_each fails now i ps pending w) = Inr out \<Longrightarrow>
     \<exists>new. out = pending @ new \<and> map content new = ps"
proof (induction ps arbitrary: i pending w)
  case Nil
  then show ?case by simp
next
  case (Cons p ps)
  obtain res w' where step:
    "pg_insert_row (fails (InsertSeed i)) now p (emit (Issued (InsertSeed i)) w) = (res, w')"
    by (cases "pg_insert_row (fails (InsertSeed i)) now p (emit (Issued (InsertSeed i)) w)")
  show ?case
  proof (cases res)
    case (Inl e)
    with step have "insert_each fails now i (p # ps) pending w = (Inl e, w')"
      by (simp only: insert_each_Cons_Inl)
    with Cons.prems show ?thesis by simp
  next
    case (Inr r)
    with step have s: "pg_insert_row (fails (InsertSeed i)) now p (emit (Issued (InsertSeed i)) w) = (Inr r, w')"
      by simp
    then have "insert_each fails now i (p # ps) pending w
                 = insert_each fails now (Suc i) ps (pending @ [r]) w'"
      by (rule insert_each_Cons_Inr)
    with Cons.prems have "fst (insert_each fails now (Suc i) ps (pending @ [r]) w') = Inr out"
      by (simp only:)
    from Cons.IH[OF this] obtain new where new: "out = (pending @ [r]) @ new" "map content new = ps"
      by (elim exE conjE)
    from s have "content r = p" by (rule pg_insert_row_Inr[THEN conjunct1])
    then have "map content (r # new) = p # ps" using new(2) by simp
    moreover have "out = pending @ (r # new)" using new(1) by simp
    ultimately have "out = pending @ (r # new) \<and> map content (r # new) = p # ps" by (simp only:)
    then show ?thesis by (rule exI)
  qed
qed

lemma insert_each_ok:
  "list_all valid ps \<Longrightarrow> (\<And>j. \<not> fails (InsertSeed j)) \<Longrightarrow>
     \<exists>out. fst (insert_each fails now i ps pending w) = Inr out"
proof (induction ps arbitrary: i pending w)
  case Nil
  then show ?case by simp
next
  case (Cons p ps)
  from Cons.prems have "valid p" "\<not> fails (InsertSeed i)" by simp_all
  from pg_insert_row_valid[OF this, of now "emit (Issued (InsertSeed i)) w"]
  obtain r where r: "pg_insert_row (fails (InsertSeed i)) now p (emit (Issued (InsertSeed i)) w)
     = (Inr r, (emit (Issued (InsertSeed i)) w)\<lparr> next_id := next_id (emit (Issued (InsertSeed i)) w) + 1 \<rparr>)"
    by blast
  from Cons.prems have "list_all valid ps" by simp
  from Cons.IH[OF this Cons.prems(2)] r show ?case by simp
qed

lemma insert_each_fault:
  "list_all valid ps \<Longrightarrow> i \<le> j \<Longrightarrow> j < i + length ps \<Longrightarrow> fails (InsertSeed j) \<Longrightarrow>
     fst (insert_each fails now i ps pending w) = Inl QueryFailed"
proof (induction ps arbitrary: i pending w)
  case Nil
  then show ?case by simp
next
  case (Cons p ps)
  show ?case
  proof (cases "fails (InsertSeed i)")
    case True
    then show ?thesis by (simp add: pg_insert_row_down)
  next
    case False
    with Cons.prems have j: "Suc i \<le> j" "j < Suc i + length ps"
      by (auto simp: le_less Suc_le_eq intro: le_neq_implies_less)
    from Cons.prems have "valid p" by simp
    from pg_insert_row_valid[OF this False, of now "emit (Issued (InsertSeed i)) w"]
    obtain r w' where r: "pg_insert_row (fails (InsertSeed i)) now p (emit (Issued (InsertSeed i)) w)
       = (Inr r, w')"
      by blast
    from Cons.prems have "list_all valid ps" by simp
    from Cons.IH[OF this j Cons.prems(4)] r show ?thesis by simp
  qed
qed


lemma length_products: "length products = 12"
  by (simp add: products_def)

lemma seed_valid:
  "in_int4 (Some e) \<Longrightarrow> in_int4 (Some s) \<Longrightarrow> in_numeric_10_2 p \<Longrightarrow> valid (seed e n c p i s)"
  by (simp add: seed_def valid_def)

lemma products_valid: "list_all valid products"
  by (simp add: products_def seed_valid in_int4_def in_numeric_10_2_def)

lemma rows_emit: "rows (emit e w) = rows w"
  by (simp add: emit_def)

lemma trace_emit: "trace (emit e w) = trace w @ [e]"
  by (simp add: emit_def)

section \<open>Facts about the transaction\<close>

lemma seed_try_Inl:
  "fst (seed_try fails now w) = Inl e \<Longrightarrow> rows (snd (seed_try fails now w)) = rows w"
proof -
  assume a: "fst (seed_try fails now w) = Inl e"
  obtain res w' where ie: "insert_each fails now 0 products [] (emit (Issued Begin) w) = (res, w')"
    by (cases "insert_each fails now 0 products [] (emit (Issued Begin) w)")
  have w': "rows w' = rows w"
    using insert_each_rows[of fails now 0 products "[]" "emit (Issued Begin) w"] ie
    by (simp add: rows_emit)
  show ?thesis
  proof (cases res)
    case (Inl x)
    with ie w' show ?thesis by (simp add: seed_try_def Let_def rows_emit)
  next
    case (Inr pending)
    with ie w' a show ?thesis
      by (simp add: seed_try_def Let_def rows_emit split: if_splits)
  qed
qed

lemma seed_try_Inr:
  "fst (seed_try fails now w) = Inr u \<Longrightarrow>
     \<exists>new. rows (snd (seed_try fails now w)) = rows w @ new \<and> map content new = products"
proof -
  assume a: "fst (seed_try fails now w) = Inr u"
  obtain res w' where ie: "insert_each fails now 0 products [] (emit (Issued Begin) w) = (res, w')"
    by (cases "insert_each fails now 0 products [] (emit (Issued Begin) w)")
  have w': "rows w' = rows w"
    using insert_each_rows[of fails now 0 products "[]" "emit (Issued Begin) w"] ie
    by (simp add: rows_emit)
  show ?thesis
  proof (cases res)
    case (Inl x)
    with ie a show ?thesis by (simp add: seed_try_def Let_def split: if_splits)
  next
    case (Inr pending)
    with ie have "fst (insert_each fails now 0 products [] (emit (Issued Begin) w)) = Inr pending"
      by simp
    from insert_each_Inr[OF this] have p: "map content pending = products"
      by simp
    from Inr ie w' a have "rows (snd (seed_try fails now w)) = rows w @ pending"
      by (simp add: seed_try_def Let_def rows_emit split: if_splits)
    with p have "rows (snd (seed_try fails now w)) = rows w @ pending \<and> map content pending = products"
      by (simp only:)
    then show ?thesis by (rule exI)
  qed
qed

lemma seed_try_ok:
  assumes "\<And>s. \<not> fails s"
  shows "fst (seed_try fails now w) = Inr ()"
proof -
  have "\<exists>out. fst (insert_each fails now 0 products [] (emit (Issued Begin) w)) = Inr out"
    by (rule insert_each_ok[OF products_valid]) (rule assms)
  then obtain out where "fst (insert_each fails now 0 products [] (emit (Issued Begin) w)) = Inr out"
    by (elim exE)
  then obtain w' where "insert_each fails now 0 products [] (emit (Issued Begin) w) = (Inr out, w')"
    by (cases "insert_each fails now 0 products [] (emit (Issued Begin) w)") simp
  with assms show ?thesis by (simp add: seed_try_def Let_def)
qed

lemma seed_try_fault:
  assumes "i < 12" and "fails (InsertSeed i)" and "\<not> fails Begin"
  shows "fst (seed_try fails now w) = Inl QueryFailed"
proof -
  have "fst (insert_each fails now 0 products [] (emit (Issued Begin) w)) = Inl QueryFailed"
    using insert_each_fault[OF products_valid, of 0 i fails now "[]" "emit (Issued Begin) w"] assms
    by (simp add: length_products)
  then obtain w' where "insert_each fails now 0 products [] (emit (Issued Begin) w) = (Inl QueryFailed, w')"
    by (cases "insert_each fails now 0 products [] (emit (Issued Begin) w)") simp
  with assms show ?thesis by (simp add: seed_try_def Let_def)
qed

section \<open>Facts about initDb\<close>

lemma initDb_nonempty: "rows w \<noteq> [] \<Longrightarrow> rows (snd (initDb fails now w)) = rows w"
  by (simp add: initDb_def Let_def rows_emit)

lemma initDb_seeding:
  assumes "rows w = []" and "\<not> fails CreateTable" and "\<not> fails CountRows" and "\<not> fails Connect"
  shows "initDb fails now w =
     (case seed_try fails now
             (emit (Issued Connect) (emit (ConsoleLog ''Seeding products table...'')
                (emit (Issued CountRows) (emit (Issued CreateTable) w)))) of
        (Inr u, w') \<Rightarrow> (Inr (), w')
      | (Inl err, w') \<Rightarrow>
          if fails Rollback then (Inl QueryFailed, emit (Issued Rollback) w')
          else (Inr (), emit (ConsoleError ''Error seeding products:'' (Some err))
                          (emit (Issued Rollback) w')))"
  using assms by (simp add: initDb_def Let_def rows_emit split: prod.splits sum.splits)

lemma initDb_atomic:
  "rows (snd (initDb fails now w)) = rows w
   \<or> (\<exists>new. rows (snd (initDb fails now w)) = rows w @ new \<and> map content new = products)"
proof (cases "rows w = [] \<and> \<not> fails CreateTable \<and> \<not> fails CountRows \<and> \<not> fails Connect")
  case False
  then have "rows (snd (initDb fails now w)) = rows w"
    by (auto simp add: initDb_def Let_def rows_emit)
  then show ?thesis by (rule disjI1)
next
  case True
  define W where "W = emit (Issued Connect) (emit (ConsoleLog ''Seeding products table...'')
                (emit (Issued CountRows) (emit (Issued CreateTable) w)))"
  have W: "rows W = rows w" by (simp add: W_def rows_emit)
  from True have eq: "initDb fails now w =
     (case seed_try fails now W of
        (Inr u, w') \<Rightarrow> (Inr (), w')
      | (Inl err, w') \<Rightarrow>
          if fails Rollback then (Inl QueryFailed, emit (Issued Rollback) w')
          else (Inr (), emit (ConsoleError ''Error seeding products:'' (Some err))
                          (emit (Issued Rollback) w')))"
    unfolding W_def by (intro initDb_seeding) simp_all
  obtain res w' where st: "seed_try fails now W = (res, w')"
    by (cases "seed_try fails now W")
  show ?thesis
  proof (cases res)
    case (Inl err)
    with st have "fst (seed_try fails now W) = Inl err" by simp
    from seed_try_Inl[OF this] st W have "rows w' = rows w" by simp
    with eq st Inl have "rows (snd (initDb fails now w)) = rows w"
      by (simp add: rows_emit)
    then show ?thesis by (rule disjI1)
  next
    case (Inr u)
    with st have "fst (seed_try fails now W) = Inr u" by simp
    from seed_try_Inr[OF this] st W
    have "\<exists>new. rows w' = rows w @ new \<and> map content new = products" by simp
    moreover from eq st Inr have "rows (snd (initDb fails now w)) = rows w'" by simp
    ultimately have "\<exists>new. rows (snd (initDb fails now w)) = rows w @ new \<and> map content new = products"
      by (simp only:)
    then show ?thesis by (rule disjI2)
  qed
qed

lemma initDb_ok:
  assumes "\<And>s. \<not> fails s" and "length (rows w) < 2147483648"
  shows "fst (initDb fails now w) = Inr ()"
proof (cases "rows w = []")
  case False
  with assms show ?thesis by (simp add: initDb_def Let_def rows_emit)
next
  case True
  define W where "W = emit (Issued Connect) (emit (ConsoleLog ''Seeding products table...'')
                (emit (Issued CountRows) (emit (Issued CreateTable) w)))"
  obtain w' where "seed_try fails now W = (Inr (), w')"
    using seed_try_ok[of fails now W] assms(1) by (cases "seed_try fails now W") simp
  with True assms(1) show ?thesis
    unfolding W_def by (simp add: initDb_seeding)
qed

lemma initDb_seeds:
  assumes "\<And>s. \<not> fails s" and "rows w = []"
  shows "map content (rows (snd (initDb fails now w))) = products"
proof -
  define W where "W = emit (Issued Connect) (emit (ConsoleLog ''Seeding products table...'')
                (emit (Issued CountRows) (emit (Issued CreateTable) w)))"
  have W: "rows W = []" using assms(2) by (simp add: W_def rows_emit)
  obtain w' where st: "seed_try fails now W = (Inr (), w')"
    using seed_try_ok[of fails now W] assms(1) by (cases "seed_try fails now W") simp
  then have "fst (seed_try fails now W) = Inr ()" by simp
  from seed_try_Inr[OF this] st W have "map content (rows w') = products" by simp
  moreover from st assms have "snd (initDb fails now w) = w'"
    unfolding W_def by (simp add: initDb_seeding)
  ultimately show ?thesis by simp
qed

lemma initDb_fault_logged:
  assumes "rows w = []" and "i < 12" and "fails (InsertSeed i)"
    and "\<not> fails CreateTable" and "\<not> fails CountRows" and "\<not> fails Connect"
    and "\<not> fails Begin" and "\<not> fails Rollback"
  shows "fst (initDb fails now w) = Inr ()
         \<and> rows (snd (initDb fails now w)) = rows w
         \<and> ConsoleError ''Error seeding products:'' (Some QueryFailed)
              \<in> set (trace (snd (initDb fails now w)))"
proof -
  define W where "W = emit (Issued Connect) (emit (ConsoleLog ''Seeding products table...'')
                (emit (Issued CountRows) (emit (Issued CreateTable) w)))"
  have W: "rows W = rows w" by (simp add: W_def rows_emit)
  have f: "fst (seed_try fails now W) = Inl QueryFailed"
    using assms by (intro seed_try_fault[of i]) simp_all
  then obtain w' where st: "seed_try fails now W = (Inl QueryFailed, w')"
    by (cases "seed_try fails now W") simp
  from seed_try_Inl[OF f] st W have r: "rows w' = rows w" by simp
  from assms st have "initDb fails now w =
      (Inr (), emit (ConsoleError ''Error seeding products:'' (Some QueryFailed))
                 (emit (Issued Rollback) w'))"
    unfolding W_def by (simp add: initDb_seeding)
  with r show ?thesis by (simp add: rows_emit trace_emit)
qed

lemma initDb_rollback_fault:
  assumes "rows w = []" and "i < 12" and "fails (InsertSeed i)"
    and "\<not> fails CreateTable" and "\<not> fails CountRows" and "\<not> fails Connect"
    and "\<not> fails Begin" and "fails Rollback"
  shows "fst (initDb fails now w) = Inl QueryFailed"
proof -
  define W where "W = emit (Issued Connect) (emit (ConsoleLog ''Seeding products table...'')
                (emit (Issued CountRows) (emit (Issued CreateTable) w)))"
  have f: "fst (seed_try fails now W) = Inl QueryFailed"
    using assms by (intro seed_try_fault[of i]) simp_all
  then obtain w' where st: "seed_try fails now W = (Inl QueryFailed, w')"
    by (cases "seed_try fails now W") simp
  with assms show ?thesis
    unfolding W_def by (simp add: initDb_seeding)
qed

lemma seed_try_insert_fault:
  assumes "i < 12" and "fails (InsertSeed i)"
  shows "\<exists>err. fst (seed_try fails now w) = Inl err"
proof (cases "fails Begin")
  case True
  then show ?thesis by (simp add: seed_try_def Let_def)
next
  case False
  with assms have "fst (seed_try fails now w) = Inl QueryFailed" by (intro seed_try_fault[of i])
  then show ?thesis by (rule exI)
qed

lemma initDb_insert_fault_rows:
  assumes "i < 12" and "fails (InsertSeed i)"
  shows "rows (snd (initDb fails now w)) = rows w"
proof (cases "rows w = [] \<and> \<not> fails CreateTable \<and> \<not> fails CountRows \<and> \<not> fails Connect")
  case False
  then show ?thesis by (auto simp add: initDb_def Let_def rows_emit)
next
  case True
  define W where "W = emit (Issued Connect) (emit (ConsoleLog ''Seeding products table...'')
                (emit (Issued CountRows) (emit (Issued CreateTable) w)))"
  have W: "rows W = rows w" by (simp add: W_def rows_emit)
  have "\<exists>err. fst (seed_try fails now W) = Inl err"
    using assms by (rule seed_try_insert_fault)
  then obtain err where f: "fst (seed_try fails now W) = Inl err" by (elim exE)
  then obtain w' where st: "seed_try fails now W = (Inl err, w')"
    by (cases "seed_try fails now W") simp
  from seed_try_Inl[OF f] st W have "rows w' = rows w" by simp
  with True st show ?thesis
    unfolding W_def by (simp add: initDb_seeding rows_emit)
qed

section \<open>Create requests\<close>

lemma in_int4_or_null: "in_int4 (or_null v) = in_int4 v"
  by (cases v) (simp_all add: or_null_def in_int4_def)

lemma in_int4_or_zero: "in_int4 (or_zero v) = in_int4 v"
  by (cases v) (simp_all add: or_zero_def in_int4_def)

lemma or_null_eq: "or_null v = (if v = Some 0 then None else v)"
  by (cases v) (simp_all add: or_null_def)

lemma or_zero_eq: "or_zero v = (if v = None then Some 0 else v)"
  by (cases v) (simp_all add: or_zero_def)

lemma post_products_created:
  assumes "\<not> down" and "valid body"
  shows "\<exists>row. post_products down now body w =
           (Response 201 (Created row), w\<lparr> next_id := next_id w + 1, rows := rows w @ [row] \<rparr>)
         \<and> row = \<lparr> p_id = next_id w, p_ext_id = or_null (f_ext_id body), p_name = the (f_name body),
                    p_category = f_category body, p_price = the (f_price body),
                    p_image = f_image body, p_stock = or_zero (f_stock body),
                    p_created_at = now \<rparr>"
  using assms
  by (auto simp: post_products_def pg_insert_row_def valid_def in_int4_or_null in_int4_or_zero
      Let_def split: option.splits)

lemma post_products_failed:
  assumes "down \<or> \<not> valid body"
  shows "fst (post_products down now body w) = Response 500 (ErrorBody ''Failed to create product'')
         \<and> rows (snd (post_products down now body w)) = rows w"
  using assms
  by (auto simp: post_products_def pg_insert_row_def valid_def in_int4_or_null in_int4_or_zero
      Let_def rows_emit split: option.splits)

text \<open>
  C6, amended. A create request that answers 201 carries the inserted row, which is the
  new last row of the table, with the next value of the sequence as \<open>id\<close> and the time of
  the insert as \<open>created_at\<close>. A supplied \<open>ext_id\<close> other than 0 is stored as given; an
  omitted one, like the number 0, is stored as \<open>NULL\<close>. An omitted \<open>stock\<close> is stored as 0.
  The request answers 201 exactly when the statement does not fail and the values fit the
  columns.
\<close>
theorem create_stores_row:
  "(fst (post_products down now body w) = Response 201 b \<longrightarrow>
      (\<exists>row. b = Created row
         \<and> rows (snd (post_products down now body w)) = rows w @ [row]
         \<and> p_id row = next_id w \<and> p_created_at row = now
         \<and> f_name body = Some (p_name row) \<and> f_price body = Some (p_price row)
         \<and> p_category row = f_category body \<and> p_image row = f_image body
         \<and> p_ext_id row = (if f_ext_id body = Some 0 then None else f_ext_id body)
         \<and> p_stock row = (if f_stock body = None then Some 0 else f_stock body)))
   \<and> ((\<exists>b. fst (post_products down now body w) = Response 201 b) = (\<not> down \<and> valid body))"
proof (cases "\<not> down \<and> valid body")
  case True
  then have n: "f_name body = Some (the (f_name body))" and p: "f_price body = Some (the (f_price body))"
    by (auto simp: valid_def split: option.splits)
  from True post_products_created[of down body now w] obtain row where
    row: "post_products down now body w =
           (Response 201 (Created row), w\<lparr> next_id := next_id w + 1, rows := rows w @ [row] \<rparr>)"
      "row = \<lparr> p_id = next_id w, p_ext_id = or_null (f_ext_id body), p_name = the (f_name body),
                    p_category = f_category body, p_price = the (f_price body),
                    p_image = f_image body, p_stock = or_zero (f_stock body),
                    p_created_at = now \<rparr>"
    by (elim exE conjE) simp_all
  have "b = Created row
         \<and> rows (snd (post_products down now body w)) = rows w @ [row]
         \<and> p_id row = next_id w \<and> p_created_at row = now
         \<and> f_name body = Some (p_name row) \<and> f_price body = Some (p_price row)
         \<and> p_category row = f_category body \<and> p_image row = f_image body
         \<and> p_ext_id row = (if f_ext_id body = Some 0 then None else f_ext_id body)
         \<and> p_stock row = (if f_stock body = None then Some 0 else f_stock body)"
    if "fst (post_products down now body w) = Response 201 b"
    using that n p by (simp add: row or_null_eq or_zero_eq)
  then have "fst (post_products down now body w) = Response 201 b \<longrightarrow>
      (\<exists>row. b = Created row
         \<and> rows (snd (post_products down now body w)) = rows w @ [row]
         \<and> p_id row = next_id w \<and> p_created_at row = now
         \<and> f_name body = Some (p_name row) \<and> f_price body = Some (p_price row)
         \<and> p_category row = f_category body \<and> p_image row = f_image body
         \<and> p_ext_id row = (if f_ext_id body = Some 0 then None else f_ext_id body)
         \<and> p_stock row = (if f_stock body = None then Some 0 else f_stock body))"
    by (intro impI exI[of _ row])
  moreover have "\<exists>b. fst (post_products down now body w) = Response 201 b"
    by (simp add: row(1))
  ultimately show ?thesis using True by simp
next
  case False
  then have "fst (post_products down now body w) = Response 500 (ErrorBody ''Failed to create product'')"
    using post_products_failed[of down body now w] by simp
  with False show ?thesis by simp
qed

text \<open>C6, at a request that omits \<open>ext_id\<close> and \<open>stock\<close>, on an empty table.\<close>
theorem create_stores_row_witness:
  "fst (post_products False 9 hat fresh) =
     Response 201 (Created \<lparr> p_id = 1, p_ext_id = None, p_name = ''Hat'', p_category = Some ''hats'',
                              p_price = 500, p_image = None, p_stock = Some 0, p_created_at = 9 \<rparr>)
   \<and> rows (snd (post_products False 9 hat fresh)) =
       [\<lparr> p_id = 1, p_ext_id = None, p_name = ''Hat'', p_category = Some ''hats'',
          p_price = 500, p_image = None, p_stock = Some 0, p_created_at = 9 \<rparr>]"
proof -
  have v: "\<not> False \<and> valid hat"
    by (simp add: valid_def hat_def in_int4_def in_numeric_10_2_def)
  with create_stores_row[of False 9 hat fresh] obtain b where
    b: "fst (post_products False 9 hat fresh) = Response 201 b"
    by (elim conjE) auto
  with create_stores_row[of False 9 hat fresh b] obtain row where
    "b = Created row" "rows (snd (post_products False 9 hat fresh)) = rows fresh @ [row]"
    "p_id row = next_id fresh" "p_created_at row = 9"
    "f_name hat = Some (p_name row)" "f_price hat = Some (p_price row)"
    "p_category row = f_category hat" "p_image row = f_image hat"
    "p_ext_id row = (if f_ext_id hat = Some 0 then None else f_ext_id hat)"
    "p_stock row = (if f_stock hat = None then Some 0 else f_stock hat)"
    by (elim conjE) auto
  then have "b = Created \<lparr> p_id = 1, p_ext_id = None, p_name = ''Hat'', p_category = Some ''hats'',
                              p_price = 500, p_image = None, p_stock = Some 0, p_created_at = 9 \<rparr>
     \<and> rows (snd (post_products False 9 hat fresh)) =
       [\<lparr> p_id = 1, p_ext_id = None, p_name = ''Hat'', p_category = Some ''hats'',
          p_price = 500, p_image = None, p_stock = Some 0, p_created_at = 9 \<rparr>]"
    by (cases row) (simp add: hat_def fresh_def)
  with b show ?thesis by simp
qed

text \<open>
  C6 as it is stated fails for a supplied \<open>ext_id\<close> of 0: the row is stored and returned
  with \<open>ext_id\<close> \<open>NULL\<close>.
\<close>
theorem create_stores_row_counterexample:
  "f_ext_id (hat\<lparr> f_ext_id := Some 0 \<rparr>) = Some 0
   \<and> post_products False 9 (hat\<lparr> f_ext_id := Some 0 \<rparr>) fresh =
      (Response 201 (Created \<lparr> p_id = 1, p_ext_id = None, p_name = ''Hat'',
                                p_category = Some ''hats'', p_price = 500, p_image = None,
                                p_stock = Some 0, p_created_at = 9 \<rparr>),
       \<lparr> rows = [\<lparr> p_id = 1, p_ext_id = None, p_name = ''Hat'', p_category = Some ''hats'',
                    p_price = 500, p_image = None, p_stock = Some 0, p_created_at = 9 \<rparr>],
         next_id = 2, trace = [] \<rparr>)"
  by (simp add: post_products_def pg_insert_row_def hat_def fresh_def or_null_def or_zero_def
      in_int4_def in_numeric_10_2_def)

text \<open>
  C7. A create request without a name or without a price is answered with status 500 and
  the fixed body, whatever the error was, and leaves the rows of the table as they were.
\<close>
theorem create_requires_name_and_price:
  assumes "f_name body = None \<or> f_price body = None"
  shows "fst (post_products down now body w) = Response 500 (ErrorBody ''Failed to create product'')
         \<and> rows (snd (post_products down now body w)) = rows w
         \<and> length (rows (snd (post_products down now body w))) = length (rows w)"
proof -
  from assms have "\<not> valid body" by (auto simp: valid_def)
  then show ?thesis using post_products_failed[of down body now w] by simp
qed

text \<open>C7, at a request without a name on a table of two rows.\<close>
theorem create_requires_name_and_price_witness:
  "(f_name (hat\<lparr> f_name := None \<rparr>) = None \<or> f_price (hat\<lparr> f_name := None \<rparr>) = None)
   \<and> fst (post_products False 9 (hat\<lparr> f_name := None \<rparr>) shelf)
       = Response 500 (ErrorBody ''Failed to create product'')
   \<and> length (rows (snd (post_products False 9 (hat\<lparr> f_name := None \<rparr>) shelf))) = 2"
  using create_requires_name_and_price [of "hat\<lparr> f_name := None \<rparr>" False 9 shelf]
  by (simp add: shelf_def)

section \<open>Seeding and start-up\<close>

lemma no_fault_never: "\<not> no_fault s"
  by (simp add: no_fault_def)

text \<open>
  C1. On a table that has a row, \<open>initDb\<close> leaves the rows as they are and issues no
  insert, whatever fails. On an empty table, when no statement fails, it resolves with the twelve sample products
  as the rows, and a second run after it changes no row: the two runs together insert
  the sample set once.
\<close>
theorem seeding_only_when_empty:
  "(rows w \<noteq> [] \<longrightarrow>
      rows (snd (initDb fails now w)) = rows w
      \<and> (\<forall>i. Issued (InsertSeed i) \<in> set (trace (snd (initDb fails now w)))
             \<longrightarrow> Issued (InsertSeed i) \<in> set (trace w)))
   \<and> (rows w = [] \<longrightarrow>
        fst (initDb no_fault now w) = Inr ()
        \<and> map content (rows (snd (initDb no_fault now w))) = products
        \<and> length (rows (snd (initDb no_fault now w))) = 12
        \<and> rows (snd (initDb no_fault now' (snd (initDb no_fault now w))))
            = rows (snd (initDb no_fault now w)))"
proof (intro conjI impI allI)
  assume "rows w \<noteq> []"
  then show "rows (snd (initDb fails now w)) = rows w" by (rule initDb_nonempty)
next
  fix i
  assume "rows w \<noteq> []" and "Issued (InsertSeed i) \<in> set (trace (snd (initDb fails now w)))"
  then show "Issued (InsertSeed i) \<in> set (trace w)"
    by (simp add: initDb_def Let_def rows_emit trace_emit split: if_splits)
next
  assume e: "rows w = []"
  then show "fst (initDb no_fault now w) = Inr ()"
    by (intro initDb_ok no_fault_never) simp
  show m: "map content (rows (snd (initDb no_fault now w))) = products"
    using e by (intro initDb_seeds no_fault_never)
  have "length (map content (rows (snd (initDb no_fault now w)))) = 12"
    by (simp only: m length_products)
  then show l: "length (rows (snd (initDb no_fault now w))) = 12" by simp
  then have "rows (snd (initDb no_fault now w)) \<noteq> []" by auto
  then show "rows (snd (initDb no_fault now' (snd (initDb no_fault now w))))
            = rows (snd (initDb no_fault now w))"
    by (rule initDb_nonempty)
qed

text \<open>C1, at a table of two rows and at the empty table.\<close>
theorem seeding_only_when_empty_witness:
  "rows shelf \<noteq> [] \<and> rows (snd (initDb no_fault 5 shelf)) = rows shelf
   \<and> rows fresh = [] \<and> fst (initDb no_fault 5 fresh) = Inr ()
   \<and> map content (rows (snd (initDb no_fault 5 fresh))) = products
   \<and> length (rows (snd (initDb no_fault 6 (snd (initDb no_fault 5 fresh))))) = 12"
proof -
  have s: "rows shelf \<noteq> []" by (simp add: shelf_def)
  have f: "rows fresh = []" by (simp add: fresh_def)
  from s f seeding_only_when_empty [of shelf no_fault 5 6]
    seeding_only_when_empty [of fresh no_fault 5 6]
  show ?thesis by simp
qed

text \<open>
  C2, at the failing input. With the first insert failing and \<open>ROLLBACK\<close> succeeding,
  the seeding error is logged and the server is started. With the first insert and then
  \<open>ROLLBACK\<close> failing, the error of \<open>ROLLBACK\<close> leaves the \<open>catch\<close> block before
  its \<open>console.error\<close>: \<open>initDb\<close> rejects, no seeding error is logged and the process
  exits with code 1. The table stays empty in both runs.
\<close>
theorem seeding_rollback_failure:
  "bootstrap ascii configured (fault_at [InsertSeed 0]) 5 fresh =
      (Listening (PortNumber 3000),
       \<lparr> rows = [], next_id = 1,
         trace = [Issued CreateTable, Issued CountRows, ConsoleLog ''Seeding products table...'',
                  Issued Connect, Issued Begin, Issued (InsertSeed 0), Issued Rollback,
                  ConsoleError ''Error seeding products:'' (Some QueryFailed),
                  ConsoleLog ''Server started at http://localhost:3000''] \<rparr>)
   \<and> bootstrap ascii configured (fault_at [InsertSeed 0, Rollback]) 5 fresh =
      (Exited 1,
       \<lparr> rows = [], next_id = 1,
         trace = [Issued CreateTable, Issued CountRows, ConsoleLog ''Seeding products table...'',
                  Issued Connect, Issued Begin, Issued (InsertSeed 0), Issued Rollback,
                  ConsoleError ''DB init failed:'' (Some QueryFailed)] \<rparr>)"
proof
  have p: "string_of_nat 3000 = ''3000''" by code_simp
  show "bootstrap ascii configured (fault_at [InsertSeed 0]) 5 fresh =
      (Listening (PortNumber 3000),
       \<lparr> rows = [], next_id = 1,
         trace = [Issued CreateTable, Issued CountRows, ConsoleLog ''Seeding products table...'',
                  Issued Connect, Issued Begin, Issued (InsertSeed 0), Issued Rollback,
                  ConsoleError ''Error seeding products:'' (Some QueryFailed),
                  ConsoleLog ''Server started at http://localhost:3000''] \<rparr>)"
    by (simp add: bootstrap_def initDb_def seed_try_def products_def pg_insert_row_def
        listen_throws_def fault_at_def configured_def fresh_def emit_def Let_def p)
  show "bootstrap ascii configured (fault_at [InsertSeed 0, Rollback]) 5 fresh =
      (Exited 1,
       \<lparr> rows = [], next_id = 1,
         trace = [Issued CreateTable, Issued CountRows, ConsoleLog ''Seeding products table...'',
                  Issued Connect, Issued Begin, Issued (InsertSeed 0), Issued Rollback,
                  ConsoleError ''DB init failed:'' (Some QueryFailed)] \<rparr>)"
    by (simp add: bootstrap_def initDb_def seed_try_def products_def pg_insert_row_def
        fault_at_def configured_def fresh_def emit_def Let_def)
qed

text \<open>
  C9. Without a connection string the process exits with code 1 after one line on the
  console, with no statement issued and the table untouched. When \<open>initDb\<close> resolves and
  no port is configured, the server listens on 3000; with a configured port it listens
  on that port, or exits with code 1 when \<open>app.listen\<close> refuses the port. When the
  creation of the table fails the process exits with code 1 and does not listen.
\<close>
theorem bootstrap_gates:
  "(\<not> truthy (DATABASE_URL e) \<longrightarrow>
      bootstrap pf e fails now w
        = (Exited 1, emit (ConsoleError ''DATABASE_URL missing in .env'' None) w))
   \<and> (truthy (DATABASE_URL e) \<and> PORT e = None \<and> fst (initDb fails now w) = Inr () \<longrightarrow>
        fst (bootstrap pf e fails now w) = Listening (PortNumber 3000))
   \<and> (truthy (DATABASE_URL e) \<and> PORT e = Some p \<and> p \<noteq> [] \<and> fst (initDb fails now w) = Inr () \<longrightarrow>
        fst (bootstrap pf e fails now w)
          = (if listen_throws pf (PortString p) then Exited 1 else Listening (PortString p)))
   \<and> (fails CreateTable \<longrightarrow>
        fst (bootstrap pf e fails now w) = Exited 1
        \<and> rows (snd (bootstrap pf e fails now w)) = rows w)"
proof (intro conjI impI)
  assume "\<not> truthy (DATABASE_URL e)"
  then show "bootstrap pf e fails now w
        = (Exited 1, emit (ConsoleError ''DATABASE_URL missing in .env'' None) w)"
    by (simp add: bootstrap_def)
next
  assume a: "truthy (DATABASE_URL e) \<and> PORT e = None \<and> fst (initDb fails now w) = Inr ()"
  then obtain w' where "initDb fails now w = (Inr (), w')"
    by (cases "initDb fails now w") simp
  with a show "fst (bootstrap pf e fails now w) = Listening (PortNumber 3000)"
    by (simp add: bootstrap_def Let_def listen_throws_def)
next
  assume a: "truthy (DATABASE_URL e) \<and> PORT e = Some p \<and> p \<noteq> [] \<and> fst (initDb fails now w) = Inr ()"
  then obtain w' where "initDb fails now w = (Inr (), w')"
    by (cases "initDb fails now w") simp
  with a show "fst (bootstrap pf e fails now w)
          = (if listen_throws pf (PortString p) then Exited 1 else Listening (PortString p))"
    by (simp add: bootstrap_def Let_def)
next
  assume f: "fails CreateTable"
  then have i: "initDb fails now w = (Inl QueryFailed, emit (Issued CreateTable) w)"
    by (simp add: initDb_def Let_def)
  then show "fst (bootstrap pf e fails now w) = Exited 1"
    by (simp add: bootstrap_def Let_def)
  from i show "rows (snd (bootstrap pf e fails now w)) = rows w"
    by (simp add: bootstrap_def Let_def rows_emit)
qed

lemma port_8080: "\<not> listen_throws ascii (PortString ''8080'')"
  by (simp add: listen_throws_def parse_param_def digit_val_def upt_rec)

lemma port_99999: "listen_throws ascii (PortString ''99999'')"
  by (simp add: listen_throws_def parse_param_def digit_val_def upt_rec)

text \<open>
  C9, at a missing connection string, the default port, the configured ports 8080 and
  99999, and a failing \<open>CREATE TABLE\<close>.
\<close>
theorem bootstrap_gates_witness:
  "\<not> truthy (DATABASE_URL (configured\<lparr> DATABASE_URL := None \<rparr>))
   \<and> bootstrap ascii (configured\<lparr> DATABASE_URL := None \<rparr>) no_fault 5 fresh
       = (Exited 1, \<lparr> rows = [], next_id = 1,
                      trace = [ConsoleError ''DATABASE_URL missing in .env'' None] \<rparr>)
   \<and> truthy (DATABASE_URL configured) \<and> PORT configured = None
   \<and> fst (initDb no_fault 5 fresh) = Inr ()
   \<and> fst (bootstrap ascii configured no_fault 5 fresh) = Listening (PortNumber 3000)
   \<and> fst (bootstrap ascii (configured\<lparr> PORT := Some ''8080'' \<rparr>) no_fault 5 fresh)
       = Listening (PortString ''8080'')
   \<and> fst (bootstrap ascii (configured\<lparr> PORT := Some ''99999'' \<rparr>) no_fault 5 fresh) = Exited 1
   \<and> fault_at [CreateTable] CreateTable
   \<and> fst (bootstrap ascii configured (fault_at [CreateTable]) 5 fresh) = Exited 1"
proof -
  have i: "fst (initDb no_fault 5 fresh) = Inr ()"
    by (intro initDb_ok no_fault_never) (simp add: fresh_def)
  have c: "truthy (DATABASE_URL configured) \<and> PORT configured = None"
    by (simp add: configured_def)
  have f: "fault_at [CreateTable] CreateTable" by (simp add: fault_at_def)
  from i c f port_8080 port_99999
    bootstrap_gates [of "configured\<lparr> DATABASE_URL := None \<rparr>" ascii no_fault 5 fresh "[]"]
    bootstrap_gates [of configured ascii no_fault 5 fresh "[]"]
    bootstrap_gates [of "configured\<lparr> PORT := Some ''8080'' \<rparr>" ascii no_fault 5 fresh "''8080''"]
    bootstrap_gates [of "configured\<lparr> PORT := Some ''99999'' \<rparr>" ascii no_fault 5 fresh "''99999''"]
    bootstrap_gates [of configured ascii "fault_at [CreateTable]" 5 fresh "[]"]
  show ?thesis by (simp add: configured_def fresh_def emit_def)
qed

end
